theory Spec2Isabelle
  imports Main
begin

section \<open>The library catalogue: documents and the entity store\<close>

text \<open>
  The application keeps four collections of documents (Author, Book, Genre, BookInstance).
  An identity is opaque; it is written here as the string the store prints for it, which is
  what the derived \<^verbatim>\<open>url\<close> of a document ends with.
\<close>

type_synonym oid = string

text \<open>
  The functions of the libraries that the controllers rely on and that are not part of
  the repository are parameters of the model. \<open>castObjectId\<close> is the store library's cast of
  a submitted string (\<^verbatim>\<open>req.params.id\<close>, a field of \<^verbatim>\<open>req.body\<close>) to an identity: \<open>None\<close> when
  the string is not the text of an identity, in which case the query that was given the
  string fails with a \<^verbatim>\<open>CastError\<close>. \<open>isISO8601\<close> is the validator of that name and
  \<open>Date_parse\<close> is \<^verbatim>\<open>Date.parse\<close>, which the sanitizer \<^verbatim>\<open>toDate\<close> calls (\<open>None\<close> is \<^verbatim>\<open>NaN\<close>).
\<close>

record lib =
  castObjectId :: "string \<Rightarrow> oid option"
  isISO8601 :: "string \<Rightarrow> bool"
  Date_parse :: "string \<Rightarrow> int option"

text \<open>A collection holds its documents in store order, each under its identity.\<close>

type_synonym 'a coll = "(oid \<times> 'a) list"

text \<open>
  \<^verbatim>\<open>src/models/Author.js\<close>: the stored fields of an Author. A field of a document may be
  unset (\<open>None\<close>); dates are milliseconds since the epoch, as a JavaScript \<^verbatim>\<open>Date\<close> holds them.
\<close>

record author =
  first_name :: "string option"
  family_name :: "string option"
  date_of_birth :: "int option"
  date_of_death :: "int option"

text \<open>
  JavaScript truthiness of a string-valued property: \<^verbatim>\<open>undefined\<close> and the empty string are
  falsy, every other string is truthy.
\<close>

fun truthy :: "string option \<Rightarrow> bool" where
  "truthy None = False"
| "truthy (Some s) = (s \<noteq> [])"

text \<open>Template-literal interpolation of a string-valued property.\<close>

fun interpolate :: "string option \<Rightarrow> string" where
  "interpolate None = ''undefined''"
| "interpolate (Some s) = s"

text \<open>
  The virtual \<^verbatim>\<open>name\<close> of \<^verbatim>\<open>AuthorSchema\<close>: both assignments of the getter, in the order
  of the source.
\<close>

definition author_name :: "author \<Rightarrow> string" where
  "author_name this =
     (let fullname = '''';
          fullname = (if truthy (first_name this) \<and> truthy (family_name this)
                      then interpolate (family_name this) @ '', '' @ interpolate (first_name this)
                      else fullname);
          fullname = (if \<not> truthy (first_name this) \<or> \<not> truthy (family_name this)
                      then '''' else fullname)
      in fullname)"

text \<open>The virtual \<^verbatim>\<open>url\<close> of \<^verbatim>\<open>AuthorSchema\<close>.\<close>

definition author_url :: "oid \<Rightarrow> string" where
  "author_url i = ''/catalog/author/'' @ i"


section \<open>The other documents\<close>

text \<open>
  Modelled from the spec: the schemas of Genre, Book and BookInstance
  (\<^verbatim>\<open>models/Genre.js\<close>, \<^verbatim>\<open>models/Book.js\<close> and \<^verbatim>\<open>models/BookInstance.js\<close> are not among
  the sources). Section 3 of the specification gives their fields: a Genre has a name; a
  Book has a title, a reference to one Author, a summary, an ISBN and a list of references
  to Genres; a BookInstance has a reference to one Book, an imprint, a status and an
  optional due date. References are identities; a reference path of a Book built from a
  form holds the sanitized string of the form. The reference and the imprint of a
  BookInstance may be unset, because the update handler builds such documents.
\<close>

record genre =
  name :: string

record book =
  title :: string
  author :: oid
  summary :: string
  isbn :: string
  genre :: "oid list"

record bookinstance =
  book :: "oid option"
  imprint :: "string option"
  status :: string
  due_back :: "int option"

text \<open>
  Modelled from the spec: the virtual \<^verbatim>\<open>url\<close> of the three schemas that are not among the
  sources. Section 6 gives the canonical path as \<^verbatim>\<open>/<singular>/<identity>\<close>, below the
  \<^verbatim>\<open>/catalog\<close> mount point of \<^verbatim>\<open>app.js\<close>, as \<open>author_url\<close> has it.
\<close>

definition genre_url :: "oid \<Rightarrow> string" where
  "genre_url i = ''/catalog/genre/'' @ i"

definition book_url :: "oid \<Rightarrow> string" where
  "book_url i = ''/catalog/book/'' @ i"

definition bookinstance_url :: "oid \<Rightarrow> string" where
  "bookinstance_url i = ''/catalog/bookinstance/'' @ i"

record store =
  authors :: "author coll"
  books :: "book coll"
  genres :: "genre coll"
  bookinstances :: "bookinstance coll"

subsection \<open>Errors\<close>

text \<open>
  A JavaScript error object: its constructor's name, its message and the \<^verbatim>\<open>status\<close>
  property, which only the controllers set.
\<close>

record js_error =
  err_name :: string
  err_message :: string
  err_status :: "nat option"

definition http_error :: "string \<Rightarrow> nat \<Rightarrow> js_error" where
  "http_error m code = \<lparr>err_name = ''Error'', err_message = m, err_status = Some code\<rparr>"

definition type_error :: "string \<Rightarrow> js_error" where
  "type_error m = \<lparr>err_name = ''TypeError'', err_message = m, err_status = None\<rparr>"

definition reference_error :: "string \<Rightarrow> js_error" where
  "reference_error m = \<lparr>err_name = ''ReferenceError'', err_message = m, err_status = None\<rparr>"

definition duplicate_key :: "oid \<Rightarrow> js_error" where
  "duplicate_key i =
     \<lparr>err_name = ''MongoServerError'', err_message = ''E11000 duplicate key error: _id '' @ i,
      err_status = None\<rparr>"

text \<open>
  The error of a query whose string cannot be cast to an identity. It has no \<^verbatim>\<open>status\<close>.
  Its message names the value; the store library's message goes on to name the path and
  the model of the query that failed, which are left out here.
\<close>

definition quoted :: "string \<Rightarrow> string" where
  "quoted s = [CHR 0x22] @ s @ [CHR 0x22]"

definition cast_error :: "string \<Rightarrow> js_error" where
  "cast_error v =
     \<lparr>err_name = ''CastError'',
      err_message = ''Cast to ObjectId failed for value '' @ quoted v @ '' (type string)'',
      err_status = None\<rparr>"

text \<open>
  What an awaited operation gives: the error it throws, or its value. \<open>await\<close> continues
  with the value and passes an error on.
\<close>

type_synonym 'a result = "js_error + 'a"

definition await :: "'a result \<Rightarrow> ('a \<Rightarrow> 'b result) \<Rightarrow> 'b result" where
  "await r k = (case r of Inl e \<Rightarrow> Inl e | Inr x \<Rightarrow> k x)"

subsection \<open>Store operations\<close>

text \<open>
  Modelled from the spec: the operations of the entity store (section 4.1) that the
  controllers call on the models. A query that is given a string for an identity casts it
  first and fails when it cannot be cast. \<open>findById\<close> gives \<open>None\<close> for an identity with
  no record; a filter keeps store order; an update replaces the record at an identity and
  returns the record as it was; an insert under a used identity fails.
\<close>

definition cast_id :: "lib \<Rightarrow> string \<Rightarrow> oid result" where
  "cast_id L s = (case castObjectId L s of None \<Rightarrow> Inl (cast_error s) | Some i \<Rightarrow> Inr i)"

text \<open>The record a stored reference names, or null.\<close>

definition resolve :: "'a coll \<Rightarrow> oid \<Rightarrow> (oid \<times> 'a) option" where
  "resolve c i = map_option (Pair i) (map_of c i)"

definition findById :: "lib \<Rightarrow> 'a coll \<Rightarrow> string \<Rightarrow> (oid \<times> 'a) option result" where
  "findById L c s = await (cast_id L s) (\<lambda>i. Inr (resolve c i))"

definition find_where :: "('a \<Rightarrow> bool) \<Rightarrow> 'a coll \<Rightarrow> 'a coll" where
  "find_where P c = filter (\<lambda>(i, d). P d) c"

text \<open>\<^verbatim>\<open>Model.find({ path: s })\<close> for a path that holds references.\<close>

definition find_by_reference ::
  "lib \<Rightarrow> (oid \<Rightarrow> 'a \<Rightarrow> bool) \<Rightarrow> 'a coll \<Rightarrow> string \<Rightarrow> 'a coll result" where
  "find_by_reference L P c s = await (cast_id L s) (\<lambda>i. Inr (find_where (P i) c))"

definition findOne :: "('a \<Rightarrow> bool) \<Rightarrow> 'a coll \<Rightarrow> (oid \<times> 'a) option" where
  "findOne P c = List.find (\<lambda>(i, d). P d) c"

fun remove_at :: "'a coll \<Rightarrow> oid \<Rightarrow> 'a coll" where
  "remove_at [] i = []"
| "remove_at ((j, d) # c) i = (if j = i then c else (j, d) # remove_at c i)"

definition findByIdAndRemove :: "lib \<Rightarrow> 'a coll \<Rightarrow> string \<Rightarrow> 'a coll result" where
  "findByIdAndRemove L c s = await (cast_id L s) (\<lambda>i. Inr (remove_at c i))"

fun replace_at :: "oid \<Rightarrow> 'a \<Rightarrow> 'a coll \<Rightarrow> 'a coll" where
  "replace_at i d [] = []"
| "replace_at i d ((j, x) # c) = (if j = i then (j, d) # c else (j, x) # replace_at i d c)"

definition findByIdAndUpdate ::
  "lib \<Rightarrow> 'a coll \<Rightarrow> string \<Rightarrow> 'a \<Rightarrow> ((oid \<times> 'a) option \<times> 'a coll) result" where
  "findByIdAndUpdate L c s d =
     await (cast_id L s)
       (\<lambda>i. Inr (case resolve c i of
                   None \<Rightarrow> (None, c)
                 | Some old \<Rightarrow> (Some old, replace_at i d c)))"

definition save :: "'a coll \<Rightarrow> oid \<times> 'a \<Rightarrow> js_error + 'a coll" where
  "save c doc = (if fst doc \<in> fst ` set c then Inl (duplicate_key (fst doc)) else Inr (c @ [doc]))"

text \<open>
  The identity of a document built with \<^verbatim>\<open>_id: req.params.id\<close>: the identity the string
  is cast to, or the one the constructor generated when the string cannot be cast.
\<close>

definition document_id :: "lib \<Rightarrow> oid \<Rightarrow> string \<Rightarrow> oid" where
  "document_id L new_id s = (case castObjectId L s of None \<Rightarrow> new_id | Some i \<Rightarrow> i)"

text \<open>The projection \<^verbatim>\<open>'title summary'\<close> of a Book query.\<close>

definition title_summary :: "oid \<times> book \<Rightarrow> oid \<times> string \<times> string" where
  "title_summary d = (fst d, title (snd d), summary (snd d))"

text \<open>
  \<^verbatim>\<open>populate\<close>: a reference is replaced by the record it names, or by null when there is
  none; in a list of references the ones that name no record are dropped.
\<close>

type_synonym populated_book = "oid \<times> book \<times> (oid \<times> author) option \<times> (oid \<times> genre) list"

type_synonym populated_instance = "oid \<times> bookinstance \<times> (oid \<times> book) option"

definition populate_book :: "store \<Rightarrow> oid \<times> book \<Rightarrow> populated_book" where
  "populate_book st d =
     (fst d, snd d, resolve (authors st) (author (snd d)),
      List.map_filter (resolve (genres st)) (genre (snd d)))"

definition populate_instance :: "store \<Rightarrow> oid \<times> bookinstance \<Rightarrow> populated_instance" where
  "populate_instance st d =
     (fst d, snd d, case book (snd d) of None \<Rightarrow> None | Some b \<Rightarrow> resolve (books st) b)"

section \<open>Requests, responses and the validation layer\<close>

text \<open>
  A form field that may be submitted several times is \<^verbatim>\<open>undefined\<close>, one string or an
  array of strings in \<^verbatim>\<open>req.body\<close>.
\<close>

datatype field = Absent | Single string | Multi "string list"

text \<open>
  The part of a request the controllers read, as the strings the client sent:
  \<^verbatim>\<open>req.params.id\<close>; the hidden identity field of a delete form (\<^verbatim>\<open>authorid\<close>, \<^verbatim>\<open>bookid\<close>,
  \<^verbatim>\<open>bookinstanceid\<close>), which the form always submits and which need not be the identity of
  the URL; the fields of \<^verbatim>\<open>req.body\<close> submitted at most once (\<open>None\<close> is \<^verbatim>\<open>undefined\<close>); and
  \<^verbatim>\<open>req.body.genre\<close>.
\<close>

record request =
  params_id :: string
  form_id :: string
  body :: "string \<Rightarrow> string option"
  body_genre :: field

text \<open>
  One entry of \<^verbatim>\<open>errors.array()\<close>: the field, the message and the value that failed.
\<close>

type_synonym verror = "string \<times> string \<times> string"

text \<open>What a template receives under one key of its payload.\<close>

datatype val =
    VString string
  | VId oid
  | VAuthor "(oid \<times> author) option"
  | VAuthorList "author coll"
  | VGenre "(oid \<times> genre) option"
  | VGenreChecks "(oid \<times> genre \<times> bool) list"
  | VBook "(oid \<times> book) option"
  | VBookPopulated populated_book
  | VBookList "book coll"
  | VBookSummaries "(oid \<times> string \<times> string) list"
  | VInstance "populated_instance option"
  | VInstanceList "bookinstance coll"
  | VInstancesPopulated "populated_instance list"
  | VErrors "verror list"
  | VError "js_error option"

text \<open>
  The calls a handler makes on the response and on \<^verbatim>\<open>next\<close>, in order: \<^verbatim>\<open>res.render\<close> with
  a template and its payload, \<^verbatim>\<open>res.redirect\<close>, and \<^verbatim>\<open>next(err)\<close>. A handler wrapped in
  \<^verbatim>\<open>asyncHandler\<close> that throws ends with \<^verbatim>\<open>next\<close> called on what it threw.
\<close>

datatype action =
    Render string "(string \<times> val) list"
  | Redirect string
  | Next js_error

type_synonym outcome = "action list \<times> store"

text \<open>
  \<^verbatim>\<open>asyncHandler\<close>: what the wrapped handler throws is passed to \<^verbatim>\<open>next\<close>. In these
  handlers nothing is written and nothing is sent before a throw.
\<close>

definition asyncHandler :: "store \<Rightarrow> outcome result \<Rightarrow> outcome" where
  "asyncHandler st r = (case r of Inl e \<Rightarrow> ([Next e], st) | Inr out \<Rightarrow> out)"

text \<open>
  The error handler of \<^verbatim>\<open>app.js\<close>: the status it sets (\<^verbatim>\<open>err.status || 500\<close>) and the page
  it renders with \<^verbatim>\<open>res.locals\<close>.
\<close>

definition error_handler :: "string \<Rightarrow> js_error \<Rightarrow> nat \<times> action" where
  "error_handler env err =
     (let locals = [(''message'', VString (err_message err)),
                    (''error'', VError (if env = ''development'' then Some err else None))];
          code = (case err_status err of None \<Rightarrow> 500 | Some s \<Rightarrow> if s = 0 then 500 else s)
      in (code, Render ''error'' locals))"

subsection \<open>Sanitizers and validators\<close>

text \<open>
  The sanitizers \<^verbatim>\<open>trim\<close> and \<^verbatim>\<open>escape\<close> and the validator \<^verbatim>\<open>isLength\<close> of the validation
  library, on strings of characters below 256. \<^verbatim>\<open>trim\<close> strips the white space of a
  regular expression's \<^verbatim>\<open>\s\<close> from both ends; \<^verbatim>\<open>escape\<close> replaces the eight characters
  that are significant in markup.
\<close>

definition is_whitespace :: "char \<Rightarrow> bool" where
  "is_whitespace c \<longleftrightarrow>
     c \<in> {CHR 0x09, CHR 0x0A, CHR 0x0B, CHR 0x0C, CHR 0x0D, CHR 0x20, CHR 0xA0}"

definition trim :: "string \<Rightarrow> string" where
  "trim s = rev (dropWhile is_whitespace (rev (dropWhile is_whitespace s)))"

definition escape_char :: "char \<Rightarrow> string" where
  "escape_char c =
     (if c = CHR ''&'' then ''&amp;''
      else if c = CHR 0x22 then ''&quot;''
      else if c = CHR 0x27 then ''&#x27;''
      else if c = CHR ''<'' then ''&lt;''
      else if c = CHR ''>'' then ''&gt;''
      else if c = CHR ''/'' then ''&#x2F;''
      else if c = CHR 0x5C then ''&#x5C;''
      else if c = CHR 0x60 then ''&#96;''
      else [c])"

definition escape :: "string \<Rightarrow> string" where
  "escape s = concat (map escape_char s)"

definition isLength :: "nat \<Rightarrow> string \<Rightarrow> bool" where
  "isLength n s \<longleftrightarrow> n \<le> length s"

text \<open>The string a sanitizer or validator sees: \<^verbatim>\<open>undefined\<close> becomes the empty string.\<close>

fun toString :: "string option \<Rightarrow> string" where
  "toString None = []"
| "toString (Some s) = s"

text \<open>
  The chain \<^verbatim>\<open>body(f, m).trim().isLength({ min: n }).escape()\<close>: the sanitized value, which
  is written back to \<^verbatim>\<open>req.body\<close>, and the failures it adds. The length is checked on
  the trimmed value, before escaping.
\<close>

definition text_chain :: "string \<Rightarrow> string \<Rightarrow> nat \<Rightarrow> string option \<Rightarrow> string \<times> verror list" where
  "text_chain f m n v =
     (let t = trim (toString v)
      in (escape t, if isLength n t then [] else [(f, m, t)]))"

text \<open>
  The chain \<^verbatim>\<open>body(f).optional({ checkFalsy: true }).trim().isLength({ min: n }).escape()\<close>:
  a falsy value is left as it is, and the steps after \<^verbatim>\<open>trim\<close> are skipped when trimming
  leaves the empty string.
\<close>

definition optional_text_chain ::
  "string \<Rightarrow> string \<Rightarrow> nat \<Rightarrow> string option \<Rightarrow> string option \<times> verror list" where
  "optional_text_chain f m n v =
     (if \<not> truthy v then (v, [])
      else let t = trim (toString v)
           in if t = [] then (Some t, [])
              else (Some (escape t), if isLength n t then [] else [(f, m, t)]))"

text \<open>The value of a date field after its chain.\<close>

datatype date_value = DateUndefined | DateString string | DateObject int | DateNull

fun raw_date :: "string option \<Rightarrow> date_value" where
  "raw_date None = DateUndefined"
| "raw_date (Some s) = DateString s"

definition toDate :: "lib \<Rightarrow> string \<Rightarrow> date_value" where
  "toDate L s = (case Date_parse L s of None \<Rightarrow> DateNull | Some d \<Rightarrow> DateObject d)"

text \<open>The chain \<^verbatim>\<open>body(f).optional({ checkFalsy: true }).isISO8601().toDate()\<close>.\<close>

definition date_chain ::
  "lib \<Rightarrow> string \<Rightarrow> string \<Rightarrow> string option \<Rightarrow> date_value \<times> verror list" where
  "date_chain L f m v =
     (if \<not> truthy v then (raw_date v, [])
      else let s = toString v
           in (toDate L s, if isISO8601 L s then [] else [(f, m, s)]))"

text \<open>The chain \<^verbatim>\<open>body(f).optional({ checkFalsy: true }).trim().isISO8601().toDate()\<close>.\<close>

definition trimmed_date_chain ::
  "lib \<Rightarrow> string \<Rightarrow> string \<Rightarrow> string option \<Rightarrow> date_value \<times> verror list" where
  "trimmed_date_chain L f m v =
     (if \<not> truthy v then (raw_date v, [])
      else let t = trim (toString v)
           in if t = [] then (DateString t, [])
              else (toDate L t, if isISO8601 L t then [] else [(f, m, t)]))"

text \<open>A date path of a new document: only a date object is kept.\<close>

fun cast_date :: "date_value \<Rightarrow> int option" where
  "cast_date (DateObject d) = Some d"
| "cast_date _ = None"

text \<open>The message of a validator that was given none.\<close>

definition default_message :: string where
  "default_message = ''Invalid value''"

subsection \<open>The genre field of a Book form\<close>

text \<open>
  The first middleware of \<^verbatim>\<open>book_create_post\<close>: an array is left alone, \<^verbatim>\<open>undefined\<close>
  becomes the empty array, anything else is wrapped by \<^verbatim>\<open>new Array\<close>.
\<close>

fun create_genre_normalizer :: "field \<Rightarrow> field" where
  "create_genre_normalizer (Multi xs) = Multi xs"
| "create_genre_normalizer Absent = Multi []"
| "create_genre_normalizer (Single s) = Multi [s]"

text \<open>
  The first middleware of \<^verbatim>\<open>book_update_post\<close> tests \<^verbatim>\<open>!req.body.genre instanceof Array\<close>,
  which negates the field first and then asks whether the resulting boolean is an array.
\<close>

fun field_truthy :: "field \<Rightarrow> bool" where
  "field_truthy Absent = False"
| "field_truthy (Single s) = (s \<noteq> [])"
| "field_truthy (Multi xs) = True"

definition boolean_instanceof_Array :: "bool \<Rightarrow> bool" where
  "boolean_instanceof_Array b = False"

definition update_genre_normalizer :: "field \<Rightarrow> field" where
  "update_genre_normalizer g =
     (if boolean_instanceof_Array (\<not> field_truthy g)
      then (case g of Absent \<Rightarrow> Multi [] | Single s \<Rightarrow> Multi [s] | Multi xs \<Rightarrow> Multi xs)
      else g)"

text \<open>
  The chain \<^verbatim>\<open>body("genre.*").escape()\<close>: the wildcard selects the elements of an array and
  nothing of a string or of \<^verbatim>\<open>undefined\<close>.
\<close>

fun escape_each :: "field \<Rightarrow> field" where
  "escape_each (Multi xs) = Multi (map escape xs)"
| "escape_each g = g"

text \<open>
  The list path \<^verbatim>\<open>genre\<close> of a new Book: an array is taken as it is, a single value is
  wrapped, and an unset path is the empty list.
\<close>

fun cast_array :: "field \<Rightarrow> oid list" where
  "cast_array Absent = []"
| "cast_array (Single s) = [s]"
| "cast_array (Multi xs) = xs"

section \<open>The controllers\<close>

text \<open>
  Each handler reads the request and the store, and returns the calls it makes on the
  response together with the store it leaves. The concurrent reads of a handler
  (\<^verbatim>\<open>Promise.all\<close>) do not write, so they are taken in the order written; the ones that
  can fail are given the same string and fail together.
\<close>

subsection \<open>\<^verbatim>\<open>controllers/authorController.js\<close>\<close>

text \<open>\<^verbatim>\<open>Book.find({ author: req.params.id }, 'title summary')\<close>.\<close>

definition books_by_author :: "lib \<Rightarrow> store \<Rightarrow> string \<Rightarrow> (oid \<times> string \<times> string) list result" where
  "books_by_author L st s =
     await (find_by_reference L (\<lambda>i b. author b = i) (books st) s)
       (\<lambda>found. Inr (map title_summary found))"

definition author_detail :: "lib \<Rightarrow> request \<Rightarrow> store \<Rightarrow> outcome" where
  "author_detail L req st =
     asyncHandler st
       (await (findById L (authors st) (params_id req)) (\<lambda>found.
        await (books_by_author L st (params_id req)) (\<lambda>allBooksByAuthor.
          case found of
            None \<Rightarrow> Inr ([Next (http_error ''Author not found'' 404)], st)
          | Some a \<Rightarrow>
              Inr ([Render ''author_detail''
                      [(''title'', VString ''Author Detail''),
                       (''author'', VAuthor (Some a)),
                       (''author_books'', VBookSummaries allBooksByAuthor)]], st))))"

text \<open>
  \<^verbatim>\<open>author_delete_get\<close>: the redirect for a missing author is not followed by a
  \<^verbatim>\<open>return\<close>, so the call of \<^verbatim>\<open>res.render\<close> below it is made in both cases.
\<close>

definition author_delete_get :: "lib \<Rightarrow> request \<Rightarrow> store \<Rightarrow> outcome" where
  "author_delete_get L req st =
     asyncHandler st
       (await (findById L (authors st) (params_id req)) (\<lambda>found.
        await (books_by_author L st (params_id req)) (\<lambda>allBooksByAuthor.
          Inr ((if found = None then [Redirect ''/catalog/authors''] else []) @
               [Render ''author_delete''
                  [(''title'', VString ''Delete Author''),
                   (''author'', VAuthor found),
                   (''author_books'', VBookSummaries allBooksByAuthor)]], st))))"

text \<open>
  \<^verbatim>\<open>author_delete_post\<close>: the author and the books are read under \<^verbatim>\<open>req.params.id\<close>; the
  record removed is the one under \<^verbatim>\<open>req.body.authorid\<close>.
\<close>

definition author_delete_post :: "lib \<Rightarrow> request \<Rightarrow> store \<Rightarrow> outcome" where
  "author_delete_post L req st =
     asyncHandler st
       (await (findById L (authors st) (params_id req)) (\<lambda>found.
        await (books_by_author L st (params_id req)) (\<lambda>allBooksByAuthor.
          if length allBooksByAuthor > 0
          then Inr ([Render ''author_delete''
                       [(''title'', VString ''Delete Author''),
                        (''author'', VAuthor found),
                        (''author_books'', VBookSummaries allBooksByAuthor)]], st)
          else await (findByIdAndRemove L (authors st) (form_id req)) (\<lambda>c.
                 Inr ([Redirect ''/catalog/authors''], st\<lparr>authors := c\<rparr>)))))"

definition author_update_get :: "lib \<Rightarrow> request \<Rightarrow> store \<Rightarrow> outcome" where
  "author_update_get L req st =
     asyncHandler st
       (await (findById L (authors st) (params_id req)) (\<lambda>found.
          case found of
            None \<Rightarrow> Inr ([Next (http_error ''Author not found.'' 404)], st)
          | Some a \<Rightarrow>
              Inr ([Render ''author_form''
                      [(''title'', VString ''Update Form''),
                       (''author'', VAuthor (Some a))]], st)))"

text \<open>
  \<^verbatim>\<open>author_update_post\<close>: the four chains, then the handler. \<open>new_id\<close> is the identity
  that \<^verbatim>\<open>new Author\<close> generates. \<^verbatim>\<open>findByIdAndUpdate\<close> returns the record as it was, or
  null, and reading \<^verbatim>\<open>url\<close> of null throws.
\<close>

definition author_update_post :: "lib \<Rightarrow> oid \<Rightarrow> request \<Rightarrow> store \<Rightarrow> outcome" where
  "author_update_post L new_id req st =
     (let (first, e1) = text_chain ''first_name'' ''First Name must be provided.'' 1
                          (body req ''first_name'');
          (family, e2) = text_chain ''family_name'' default_message 1 (body req ''family_name'');
          (birth, e3) = date_chain L ''date_of_birth'' ''Invalid date of birth or not specified''
                          (body req ''date_of_birth'');
          (death, e4) = date_chain L ''date_of_death'' ''Invalid date of death or not specified''
                          (body req ''date_of_death'');
          errors = e1 @ e2 @ e3 @ e4;
          a = \<lparr>first_name = Some first, family_name = Some family,
               date_of_birth = cast_date birth, date_of_death = cast_date death\<rparr>
      in asyncHandler st
           (if errors \<noteq> []
            then Inr ([Render ''author_form''
                         [(''title'', VString ''Update Author''),
                          (''author'', VAuthor (Some (document_id L new_id (params_id req), a))),
                          (''errors'', VErrors errors)]], st)
            else await (findByIdAndUpdate L (authors st) (params_id req) a)
                   (\<lambda>(updatedAuthor, c).
                      case updatedAuthor of
                        None \<Rightarrow>
                          Inl (type_error ''Cannot read properties of null (reading 'url')'')
                      | Some old \<Rightarrow>
                          Inr ([Redirect (author_url (fst old))], st\<lparr>authors := c\<rparr>))))"

subsection \<open>\<^verbatim>\<open>controllers/genreController.js\<close>\<close>

text \<open>\<^verbatim>\<open>Book.find({ genre: req.params.id })\<close>.\<close>

definition books_in_genre :: "lib \<Rightarrow> store \<Rightarrow> string \<Rightarrow> book coll result" where
  "books_in_genre L st s =
     find_by_reference L (\<lambda>i b. i \<in> set (genre b)) (books st) s"

definition genre_detail :: "lib \<Rightarrow> request \<Rightarrow> store \<Rightarrow> outcome" where
  "genre_detail L req st =
     asyncHandler st
       (await (findById L (genres st) (params_id req)) (\<lambda>found.
        await (books_in_genre L st (params_id req)) (\<lambda>booksInGenre.
          case found of
            None \<Rightarrow> Inr ([Next (http_error ''Genre Not Found'' 404)], st)
          | Some g \<Rightarrow>
              Inr ([Render ''genre_detail''
                      [(''title'', VString ''Genre Details''),
                       (''genre'', VGenre (Some g)),
                       (''genre_books'', VBookSummaries (map title_summary booksInGenre))]],
                   st))))"

text \<open>
  \<^verbatim>\<open>genre_create_post\<close>: \<open>new_id\<close> is the identity that \<^verbatim>\<open>new Genre\<close> gives the document.
  The lookup by name and the insert happen only when validation passed.
\<close>

definition genre_create_post :: "oid \<Rightarrow> request \<Rightarrow> store \<Rightarrow> outcome" where
  "genre_create_post new_id req st =
     (let (nm, errors) = text_chain ''name'' ''Genre must be at least 3 characters'' 3
                           (body req ''name'');
          g = \<lparr>name = nm\<rparr>
      in if errors \<noteq> []
         then ([Render ''genre_form''
                  [(''title'', VString ''Create Genre''),
                   (''genre'', VGenre (Some (new_id, g))),
                   (''errors'', VErrors errors)]], st)
         else (case findOne (\<lambda>d. name d = nm) (genres st) of
                 Some genreExists \<Rightarrow> ([Redirect (genre_url (fst genreExists))], st)
               | None \<Rightarrow>
                   (case save (genres st) (new_id, g) of
                      Inl e \<Rightarrow> ([Next e], st)
                    | Inr c \<Rightarrow> ([Redirect (genre_url new_id)], st\<lparr>genres := c\<rparr>))))"

definition genre_delete_get :: "lib \<Rightarrow> request \<Rightarrow> store \<Rightarrow> outcome" where
  "genre_delete_get L req st =
     asyncHandler st
       (await (findById L (genres st) (params_id req)) (\<lambda>found.
        await (books_in_genre L st (params_id req)) (\<lambda>allBooksWithGenre.
          Inr ((if found = None then [Redirect ''/catalog/genres''] else []) @
               [Render ''genre_delete''
                  [(''title'', VString ''Delete Genre''),
                   (''genre'', VGenre found),
                   (''genre_books'', VBookList allBooksWithGenre)]], st))))"

definition genre_update_get :: "lib \<Rightarrow> request \<Rightarrow> store \<Rightarrow> outcome" where
  "genre_update_get L req st =
     asyncHandler st
       (await (findById L (genres st) (params_id req)) (\<lambda>found.
          case found of
            None \<Rightarrow> Inr ([Next (http_error ''Genre does not exist.'' 404)], st)
          | Some g \<Rightarrow>
              Inr ([Render ''genre_form''
                      [(''title'', VString ''Update Genre''),
                       (''genre'', VGenre (Some g))]], st)))"

text \<open>\<^verbatim>\<open>genre_update_post\<close>: \<open>new_id\<close> is the identity that \<^verbatim>\<open>new Genre\<close> generates.\<close>

definition genre_update_post :: "lib \<Rightarrow> oid \<Rightarrow> request \<Rightarrow> store \<Rightarrow> outcome" where
  "genre_update_post L new_id req st =
     (let (nm, errors) = text_chain ''name'' ''An updated genre name must be provided'' 1
                           (body req ''name'');
          g = \<lparr>name = nm\<rparr>
      in asyncHandler st
           (if errors \<noteq> []
            then Inr ([Render ''genre_form''
                         [(''title'', VString ''Update Genre''),
                          (''genre'', VGenre (Some (document_id L new_id (params_id req), g))),
                          (''errors'', VErrors errors)]], st)
            else await (findByIdAndUpdate L (genres st) (params_id req) g)
                   (\<lambda>(updatedGenre, c).
                      case updatedGenre of
                        None \<Rightarrow>
                          Inl (type_error ''Cannot read properties of null (reading 'url')'')
                      | Some old \<Rightarrow>
                          Inr ([Redirect (genre_url (fst old))], st\<lparr>genres := c\<rparr>))))"

subsection \<open>\<^verbatim>\<open>controllers/bookController.js\<close>\<close>

text \<open>\<^verbatim>\<open>BookInstance.find({ book: req.params.id })\<close>.\<close>

definition instances_of_book :: "lib \<Rightarrow> store \<Rightarrow> string \<Rightarrow> bookinstance coll result" where
  "instances_of_book L st s =
     find_by_reference L (\<lambda>i d. book d = Some i) (bookinstances st) s"

text \<open>\<^verbatim>\<open>Book.findById(req.params.id).populate('author').populate('genre')\<close>.\<close>

definition find_book_populated :: "lib \<Rightarrow> store \<Rightarrow> string \<Rightarrow> populated_book option result" where
  "find_book_populated L st s =
     await (findById L (books st) s) (\<lambda>found. Inr (map_option (populate_book st) found))"

definition book_detail :: "lib \<Rightarrow> request \<Rightarrow> store \<Rightarrow> outcome" where
  "book_detail L req st =
     asyncHandler st
       (await (find_book_populated L st (params_id req)) (\<lambda>found.
        await (instances_of_book L st (params_id req)) (\<lambda>bookInstances.
          case found of
            None \<Rightarrow> Inr ([Next (http_error ''Book not found.'' 404)], st)
          | Some pb \<Rightarrow>
              Inr ([Render ''book_detail''
                      [(''title'', VString (title (fst (snd pb)))),
                       (''book'', VBookPopulated pb),
                       (''book_instances'', VInstanceList bookInstances)]], st))))"

text \<open>
  The loop of the two submit handlers that marks the genres of the form:
  \<^verbatim>\<open>book.genre.includes(genre._id)\<close>.
\<close>

definition mark_checked :: "oid list \<Rightarrow> genre coll \<Rightarrow> (oid \<times> genre \<times> bool) list" where
  "mark_checked selected allGenres = map (\<lambda>(i, g). (i, g, i \<in> set selected)) allGenres"

text \<open>
  \<^verbatim>\<open>book_create_post\<close>: the genre middleware, the five chains, then the handler. \<open>new_id\<close>
  is the identity that \<^verbatim>\<open>new Book\<close> gives the document.
\<close>

definition book_create_post :: "oid \<Rightarrow> request \<Rightarrow> store \<Rightarrow> outcome" where
  "book_create_post new_id req st =
     (let genre0 = create_genre_normalizer (body_genre req);
          (ttl, e1) = text_chain ''title'' ''Title must not be empty'' 1 (body req ''title'');
          (auth, e2) = text_chain ''author'' ''Author must not be empty'' 1 (body req ''author'');
          (summ, e3) = text_chain ''summary'' ''Summary must not be empty'' 1
                         (body req ''summary'');
          (isb, e4) = text_chain ''isbn'' ''ISBN must not be empty'' 1 (body req ''isbn'');
          genre1 = escape_each genre0;
          errors = e1 @ e2 @ e3 @ e4;
          b = \<lparr>title = ttl, author = auth, summary = summ, isbn = isb,
               genre = cast_array genre1\<rparr>
      in if errors \<noteq> []
         then (let allAuthors = authors st;
                   allGenres = mark_checked (genre b) (genres st)
               in ([Render ''book_form''
                      [(''title'', VString ''Create Book''),
                       (''authors'', VAuthorList allAuthors),
                       (''genres'', VGenreChecks allGenres),
                       (''book'', VBook (Some (new_id, b))),
                       (''errors'', VErrors errors)]], st))
         else (case save (books st) (new_id, b) of
                 Inl e \<Rightarrow> ([Next e], st)
               | Inr c \<Rightarrow> ([Redirect (book_url new_id)], st\<lparr>books := c\<rparr>)))"

text \<open>\<^verbatim>\<open>BookInstance.find({ book: req.params.id }).populate('book')\<close>.\<close>

definition populated_instances_of_book ::
  "lib \<Rightarrow> store \<Rightarrow> string \<Rightarrow> populated_instance list result" where
  "populated_instances_of_book L st s =
     await (instances_of_book L st s) (\<lambda>found. Inr (map (populate_instance st) found))"

definition book_delete_get :: "lib \<Rightarrow> request \<Rightarrow> store \<Rightarrow> outcome" where
  "book_delete_get L req st =
     asyncHandler st
       (await (findById L (books st) (params_id req)) (\<lambda>found.
        await (populated_instances_of_book L st (params_id req)) (\<lambda>allBookInstances.
          Inr ((if found = None then [Redirect ''/catalog/books''] else []) @
               [Render ''book_delete''
                  [(''title'', VString ''Delete Book''),
                   (''book_instances'', VInstancesPopulated allBookInstances),
                   (''book'', VBook found)]], st))))"

text \<open>
  \<^verbatim>\<open>book_delete_post\<close>: a missing book is redirected first; the instances are read under
  \<^verbatim>\<open>req.params.id\<close>, and the record removed is the one under \<^verbatim>\<open>req.body.bookid\<close>.
\<close>

definition book_delete_post :: "lib \<Rightarrow> request \<Rightarrow> store \<Rightarrow> outcome" where
  "book_delete_post L req st =
     asyncHandler st
       (await (findById L (books st) (params_id req)) (\<lambda>found.
        await (populated_instances_of_book L st (params_id req)) (\<lambda>allBookInstances.
          case found of
            None \<Rightarrow> Inr ([Redirect ''/catalog/books''], st)
          | Some b \<Rightarrow>
              if length allBookInstances > 0
              then Inr ([Render ''book_delete''
                           [(''title'', VString ''Delete Book''),
                            (''book'', VBook (Some b)),
                            (''book_instances'', VInstancesPopulated allBookInstances)]], st)
              else await (findByIdAndRemove L (books st) (form_id req)) (\<lambda>c.
                     Inr ([Redirect ''/catalog/books''], st\<lparr>books := c\<rparr>)))))"

text \<open>
  \<^verbatim>\<open>book_update_get\<close>: for a missing book the handler builds an error in the variable
  \<^verbatim>\<open>error\<close> and then evaluates \<^verbatim>\<open>next(err)\<close>; no \<^verbatim>\<open>err\<close> is declared in the module, so the
  evaluation throws a \<^verbatim>\<open>ReferenceError\<close> before \<^verbatim>\<open>next\<close> is called.
\<close>

definition book_update_get :: "lib \<Rightarrow> request \<Rightarrow> store \<Rightarrow> outcome" where
  "book_update_get L req st =
     asyncHandler st
       (await (find_book_populated L st (params_id req)) (\<lambda>found.
          let allAuthors = authors st;
              allGenres = genres st
          in case found of
               None \<Rightarrow> Inl (reference_error ''err is not defined'')
             | Some pb \<Rightarrow>
                 (let book_genre = snd (snd (snd pb));
                      marked = mark_checked (map fst book_genre) allGenres
                  in Inr ([Render ''book_form''
                             [(''title'', VString ''Update Book''),
                              (''authors'', VAuthorList allAuthors),
                              (''genres'', VGenreChecks marked),
                              (''book'', VBookPopulated pb)]], st))))"

text \<open>\<^verbatim>\<open>book_update_post\<close>: \<open>new_id\<close> is the identity that \<^verbatim>\<open>new Book\<close> generates.\<close>

definition book_update_post :: "lib \<Rightarrow> oid \<Rightarrow> request \<Rightarrow> store \<Rightarrow> outcome" where
  "book_update_post L new_id req st =
     (let genre0 = update_genre_normalizer (body_genre req);
          (ttl, e1) = text_chain ''title'' ''Title must not be empty'' 1 (body req ''title'');
          (auth, e2) = text_chain ''author'' ''Author must not be empty'' 1 (body req ''author'');
          (summ, e3) = text_chain ''summary'' ''Summary must not be empty'' 1
                         (body req ''summary'');
          (isb, e4) = text_chain ''isbn'' ''ISBN must not be empty'' 1 (body req ''isbn'');
          genre1 = escape_each genre0;
          errors = e1 @ e2 @ e3 @ e4;
          b = \<lparr>title = ttl, author = auth, summary = summ, isbn = isb,
               genre = cast_array genre1\<rparr>
      in asyncHandler st
           (if errors \<noteq> []
            then (let allAuthors = authors st;
                      allGenres = mark_checked (genre b) (genres st)
                  in Inr ([Render ''book_form''
                             [(''title'', VString ''Update Book''),
                              (''book'', VBook (Some (document_id L new_id (params_id req), b))),
                              (''genres'', VGenreChecks allGenres),
                              (''authors'', VAuthorList allAuthors),
                              (''errors'', VErrors errors)]], st))
            else await (findByIdAndUpdate L (books st) (params_id req) b)
                   (\<lambda>(updatedBook, c).
                      case updatedBook of
                        None \<Rightarrow>
                          Inl (type_error ''Cannot read properties of null (reading 'url')'')
                      | Some old \<Rightarrow>
                          Inr ([Redirect (book_url (fst old))], st\<lparr>books := c\<rparr>))))"

subsection \<open>\<^verbatim>\<open>controllers/bookInstanceController.js\<close>\<close>

text \<open>\<^verbatim>\<open>BookInstance.findById(...).populate('book')\<close>.\<close>

definition find_instance :: "lib \<Rightarrow> store \<Rightarrow> string \<Rightarrow> populated_instance option result" where
  "find_instance L st s =
     await (findById L (bookinstances st) s)
       (\<lambda>found. Inr (map_option (populate_instance st) found))"

text \<open>
  \<^verbatim>\<open>bookinstance_detail\<close>: the title of the page reads \<^verbatim>\<open>bookInstance.book.title\<close>, which
  throws when the reference names no book.
\<close>

definition bookinstance_detail :: "lib \<Rightarrow> request \<Rightarrow> store \<Rightarrow> outcome" where
  "bookinstance_detail L req st =
     asyncHandler st
       (await (find_instance L st (params_id req)) (\<lambda>found.
          case found of
            None \<Rightarrow> Inr ([Next (http_error ''Book copy not found'' 404)], st)
          | Some bookInstance \<Rightarrow>
              (case snd (snd bookInstance) of
                 None \<Rightarrow> Inl (type_error ''Cannot read properties of null (reading 'title')'')
               | Some bk \<Rightarrow>
                   Inr ([Render ''bookinstance_detail''
                           [(''title'', VString (''Book Status for '' @ title (snd bk))),
                            (''bookinstance'', VInstance (Some bookInstance))]], st))))"

definition bookinstance_delete_get :: "lib \<Rightarrow> request \<Rightarrow> store \<Rightarrow> outcome" where
  "bookinstance_delete_get L req st =
     asyncHandler st
       (await (find_instance L st (params_id req)) (\<lambda>bookInstance.
          Inr ((if bookInstance = None then [Redirect ''/catalog/bookinstances''] else []) @
               [Render ''bookinstance_delete''
                  [(''title'', VString ''Delete Book Instance''),
                   (''bookinstance'', VInstance bookInstance)]], st)))"

text \<open>
  \<^verbatim>\<open>bookinstance_delete_post\<close>: the instance is read and removed under the identity of the
  form, \<^verbatim>\<open>req.body.bookinstanceid\<close>.
\<close>

definition bookinstance_delete_post :: "lib \<Rightarrow> request \<Rightarrow> store \<Rightarrow> outcome" where
  "bookinstance_delete_post L req st =
     asyncHandler st
       (await (find_instance L st (form_id req)) (\<lambda>bookInstance.
          if (case bookInstance of
                None \<Rightarrow> False
              | Some inst \<Rightarrow> status (fst (snd inst)) = ''Available'')
          then await (findByIdAndRemove L (bookinstances st) (form_id req))
                 (\<lambda>c. Inr ([Redirect ''/catalog/bookinstances''], st\<lparr>bookinstances := c\<rparr>))
          else Inr ([Render ''bookinstance_delete''
                       [(''title'', VString ''Delete Book Instance''),
                        (''bookinstance'', VInstance bookInstance)]], st)))"

definition bookinstance_update_get :: "lib \<Rightarrow> request \<Rightarrow> store \<Rightarrow> outcome" where
  "bookinstance_update_get L req st =
     asyncHandler st
       (await (find_instance L st (params_id req)) (\<lambda>bookInstance.
          let allBooks = books st
          in case bookInstance of
               None \<Rightarrow> Inr ([Next (http_error ''Book Instance not found.'' 404)], st)
             | Some inst \<Rightarrow>
                 (case snd (snd inst) of
                    None \<Rightarrow> Inl (type_error ''Cannot read properties of null (reading 'id')'')
                  | Some bk \<Rightarrow>
                      Inr ([Render ''bookinstance_form''
                              [(''title'', VString ''Update Book Instance''),
                               (''book_list'', VBookList allBooks),
                               (''bookinstance'', VInstance (Some inst)),
                               (''selected_book'', VId (fst bk))]], st))))"

text \<open>
  \<^verbatim>\<open>bookinstance_update_post\<close>: the four chains, then the handler. \<open>new_id\<close> is the
  identity that \<^verbatim>\<open>new BookInstance\<close> generates. The book named by the form is looked up and
  put into the new document; the payload of the form that is rendered again has no
  \<^verbatim>\<open>errors\<close> key, and \<^verbatim>\<open>selected_book\<close> reads \<^verbatim>\<open>bookInstance.book.id\<close>, which throws when no
  book was found.
\<close>

definition bookinstance_update_post :: "lib \<Rightarrow> oid \<Rightarrow> request \<Rightarrow> store \<Rightarrow> outcome" where
  "bookinstance_update_post L new_id req st =
     (let (bk, e1) = text_chain ''book'' ''A book title must be supplied'' 1 (body req ''book'');
          (impr, e2) = optional_text_chain ''imprint'' default_message 1 (body req ''imprint'');
          (due, e3) = trimmed_date_chain L ''due_back'' default_message (body req ''due_back'');
          (stat, e4) = text_chain ''status'' ''A status must be supplied.'' 1
                         (body req ''status'');
          errors = e1 @ e2 @ e3 @ e4
      in asyncHandler st
           (await (findById L (books st) bk) (\<lambda>found.
              let allBooks = books st;
                  bookInstance = \<lparr>book = map_option fst found, imprint = impr, status = stat,
                                  due_back = cast_date due\<rparr>
              in if errors \<noteq> []
                 then (case found of
                         None \<Rightarrow>
                           Inl (type_error ''Cannot read properties of null (reading 'id')'')
                       | Some b \<Rightarrow>
                           Inr ([Render ''bookinstance_form''
                                   [(''title'', VString ''Update Book Instance''),
                                    (''bookinstance'',
                                     VInstance (Some (document_id L new_id (params_id req),
                                                      bookInstance, found))),
                                    (''book_list'', VBookList allBooks),
                                    (''selected_book'', VId (fst b))]], st))
                 else await (findByIdAndUpdate L (bookinstances st)
                               (params_id req) bookInstance)
                        (\<lambda>(updatedBookInstance, c).
                           case updatedBookInstance of
                             None \<Rightarrow>
                               Inl (type_error
                                      ''Cannot read properties of null (reading 'url')'')
                           | Some old \<Rightarrow>
                               Inr ([Redirect (bookinstance_url (fst old))],
                                    st\<lparr>bookinstances := c\<rparr>)))))"

section \<open>A small catalogue\<close>

text \<open>
  One author, one genre, one book by that author with two copies, and a third copy whose
  reference names no book. The store itself does not keep references valid, so such a copy
  can be stored.
\<close>

abbreviation austen_id :: oid where "austen_id \<equiv> ''64a0000000000000000000a1''"
abbreviation fiction_id :: oid where "fiction_id \<equiv> ''64a0000000000000000000f1''"
abbreviation emma_id :: oid where "emma_id \<equiv> ''64a0000000000000000000b1''"
abbreviation lost_id :: oid where "lost_id \<equiv> ''64a0000000000000000000b9''"
abbreviation fresh_id :: oid where "fresh_id \<equiv> ''64a0000000000000000000e7''"
abbreviation copy1_id :: oid where "copy1_id \<equiv> ''64a0000000000000000000c1''"
abbreviation copy2_id :: oid where "copy2_id \<equiv> ''64a0000000000000000000c2''"
abbreviation copy3_id :: oid where "copy3_id \<equiv> ''64a0000000000000000000c3''"

definition austen :: author where
  "austen = \<lparr>first_name = Some ''Jane'', family_name = Some ''Austen'',
              date_of_birth = None, date_of_death = None\<rparr>"

definition emma :: book where
  "emma = \<lparr>title = ''Emma'', author = austen_id, summary = ''A novel'',
            isbn = ''9780141439587'', genre = [fiction_id]\<rparr>"

definition copy1 :: bookinstance where
  "copy1 = \<lparr>book = Some emma_id, imprint = Some ''Penguin 2003'', status = ''Available'',
             due_back = None\<rparr>"

definition copy2 :: bookinstance where
  "copy2 = \<lparr>book = Some emma_id, imprint = Some ''Penguin 2003'', status = ''Loaned'',
             due_back = Some 1700000000000\<rparr>"

definition copy3 :: bookinstance where
  "copy3 = \<lparr>book = Some lost_id, imprint = Some ''Vintage 1999'', status = ''Maintenance'',
             due_back = None\<rparr>"

definition library :: store where
  "library = \<lparr>authors = [(austen_id, austen)], books = [(emma_id, emma)],
               genres = [(fiction_id, \<lparr>name = ''Fiction''\<rparr>)],
               bookinstances = [(copy1_id, copy1), (copy2_id, copy2), (copy3_id, copy3)]\<rparr>"

text \<open>The same catalogue with a second book by the author, of which there is no copy.\<close>

abbreviation persuasion_id :: oid where "persuasion_id \<equiv> ''64a0000000000000000000b2''"

definition persuasion :: book where
  "persuasion = \<lparr>title = ''Persuasion'', author = austen_id, summary = ''A later novel'',
                  isbn = ''9780141439686'', genre = [fiction_id]\<rparr>"

definition larger_library :: store where
  "larger_library = library\<lparr>books := [(emma_id, emma), (persuasion_id, persuasion)]\<rparr>"

text \<open>A request that carries an identity, in the URL and in the form, and no other field.\<close>

definition id_request :: "string \<Rightarrow> request" where
  "id_request i = \<lparr>params_id = i, form_id = i, body = (\<lambda>f. None), body_genre = Absent\<rparr>"

text \<open>A delete-submit whose form names another identity than its URL.\<close>

definition delete_request :: "string \<Rightarrow> string \<Rightarrow> request" where
  "delete_request url_id hidden_id =
     \<lparr>params_id = url_id, form_id = hidden_id, body = (\<lambda>f. None), body_genre = Absent\<rparr>"

text \<open>A submitted form: the identity of the URL, the single-valued fields and the genres.\<close>

definition form_request :: "string \<Rightarrow> (string \<times> string) list \<Rightarrow> field \<Rightarrow> request" where
  "form_request i kvs g = \<lparr>params_id = i, form_id = i, body = map_of kvs, body_genre = g\<rparr>"

text \<open>
  Library functions for the examples: a cast that takes a string of 24 lower-case
  hexadecimal digits as the identity it writes and rejects every other string, and date
  functions that accept nothing, for forms that submit no date.
\<close>

definition is_hex_digit :: "char \<Rightarrow> bool" where
  "is_hex_digit c \<longleftrightarrow> c \<in> set ''0123456789abcdef''"

definition catalogue_lib :: lib where
  "catalogue_lib =
     \<lparr>castObjectId = (\<lambda>s. if length s = 24 \<and> list_all is_hex_digit s then Some s else None),
      isISO8601 = (\<lambda>s. False), Date_parse = (\<lambda>s. None)\<rparr>"

section \<open>Properties of the validation layer and the store\<close>

lemma text_chain_split:
  "text_chain f m n v =
     (escape (trim (toString v)),
      if n \<le> length (trim (toString v)) then [] else [(f, m, trim (toString v))])"
  by (simp add: text_chain_def Let_def isLength_def)

text \<open>A query on a string that is the text of an identity, and on one that is not.\<close>

lemma findById_cast:
  "castObjectId L s = Some i \<Longrightarrow> findById L c s = Inr (resolve c i)"
  by (simp add: findById_def cast_id_def await_def)

lemma findById_cast_error:
  "castObjectId L s = None \<Longrightarrow> findById L c s = Inl (cast_error s)"
  by (simp add: findById_def cast_id_def await_def)

lemma find_by_reference_cast:
  "castObjectId L s = Some i \<Longrightarrow> find_by_reference L P c s = Inr (find_where (P i) c)"
  by (simp add: find_by_reference_def cast_id_def await_def)

lemma findByIdAndRemove_cast:
  "castObjectId L s = Some i \<Longrightarrow> findByIdAndRemove L c s = Inr (remove_at c i)"
  by (simp add: findByIdAndRemove_def cast_id_def await_def)

text \<open>Removing by identity leaves every other identity as it was, and frees the one removed.\<close>

lemma remove_at_other:
  "j \<noteq> i \<Longrightarrow> map_of (remove_at c i) j = map_of c j"
  by (induction c i rule: remove_at.induct) auto

lemma remove_at_gone:
  "distinct (map fst c) \<Longrightarrow> map_of (remove_at c i) i = None"
proof (induction c i rule: remove_at.induct)
  case (1 i)
  then show ?case by simp
next
  case (2 j d c i)
  then show ?case
    by (auto simp add: map_of_eq_None_iff)
qed

text \<open>\<open>findOne\<close> finds a record exactly when one satisfies the filter.\<close>

lemma findOne_some:
  "\<exists>d\<in>set c. P (snd d) \<Longrightarrow> \<exists>d\<in>set c. P (snd d) \<and> findOne P c = Some d"
  by (induction c) (auto simp add: findOne_def)

lemma findOne_none:
  "\<forall>d\<in>set c. \<not> P (snd d) \<Longrightarrow> findOne P c = None"
  by (induction c) (auto simp add: findOne_def)

text \<open>The identities of the small catalogue are texts of identities for its library.\<close>

lemma catalogue_cast:
  "castObjectId catalogue_lib austen_id = Some austen_id"
  "castObjectId catalogue_lib fiction_id = Some fiction_id"
  "castObjectId catalogue_lib emma_id = Some emma_id"
  "castObjectId catalogue_lib persuasion_id = Some persuasion_id"
  "castObjectId catalogue_lib lost_id = Some lost_id"
  "castObjectId catalogue_lib fresh_id = Some fresh_id"
  "castObjectId catalogue_lib copy1_id = Some copy1_id"
  "castObjectId catalogue_lib copy2_id = Some copy2_id"
  "castObjectId catalogue_lib copy3_id = Some copy3_id"
  by (simp_all add: catalogue_lib_def is_hex_digit_def)

lemma catalogue_cast_fails: "castObjectId catalogue_lib ''abc'' = None"
  by (simp add: catalogue_lib_def)

section \<open>Deleting an Author or a Book that has dependents\<close>

text \<open>
  The delete-submit handlers of Author and Book read the record and its dependents under
  the identity of the URL. When that identity has dependents nothing is removed: the
  confirmation view is rendered again with them, except that \<^verbatim>\<open>book_delete_post\<close> redirects
  to the list of books when the identity of the URL names no book.
\<close>

lemma delete_post_blocked_under_url_identity:
  assumes "castObjectId L (params_id req) = Some i"
  shows "(find_where (\<lambda>b. author b = i) (books st) \<noteq> [] \<longrightarrow>
            author_delete_post L req st =
              ([Render ''author_delete''
                  [(''title'', VString ''Delete Author''),
                   (''author'', VAuthor (resolve (authors st) i)),
                   (''author_books'',
                    VBookSummaries
                      (map title_summary (find_where (\<lambda>b. author b = i) (books st))))]], st)) \<and>
         (find_where (\<lambda>d. book d = Some i) (bookinstances st) \<noteq> [] \<longrightarrow>
            book_delete_post L req st =
              (case resolve (books st) i of
                 None \<Rightarrow> ([Redirect ''/catalog/books''], st)
               | Some b \<Rightarrow>
                   ([Render ''book_delete''
                       [(''title'', VString ''Delete Book''),
                        (''book'', VBook (Some b)),
                        (''book_instances'',
                         VInstancesPopulated
                           (map (populate_instance st)
                              (find_where (\<lambda>d. book d = Some i) (bookinstances st))))]], st)))"
  using assms
  by (simp add: author_delete_post_def book_delete_post_def books_by_author_def
      populated_instances_of_book_def instances_of_book_def findById_cast
      find_by_reference_cast await_def asyncHandler_def split: option.split)

text \<open>
  When the identity of the URL has no dependents (and, for Book, names a book), the record
  removed is the one under the identity of the form, whatever depends on it.
\<close>

lemma delete_post_removes_form_identity:
  assumes "castObjectId L (params_id req) = Some i" and "castObjectId L (form_id req) = Some j"
  shows "(find_where (\<lambda>b. author b = i) (books st) = [] \<longrightarrow>
            author_delete_post L req st =
              ([Redirect ''/catalog/authors''], st\<lparr>authors := remove_at (authors st) j\<rparr>)) \<and>
         (map_of (books st) i \<noteq> None \<and>
          find_where (\<lambda>d. book d = Some i) (bookinstances st) = [] \<longrightarrow>
            book_delete_post L req st =
              ([Redirect ''/catalog/books''], st\<lparr>books := remove_at (books st) j\<rparr>))"
  using assms
  by (auto simp add: author_delete_post_def book_delete_post_def books_by_author_def
      populated_instances_of_book_def instances_of_book_def findById_cast
      find_by_reference_cast findByIdAndRemove_cast resolve_def await_def asyncHandler_def)

text \<open>
  Claim C1 says that for every Author and Book delete-submit request, if dependent Books
  (for an Author) or BookInstances (for a Book) exist, the store is left unchanged and the
  confirmation view is displayed again with the dependents listed. The code does not keep
  this when the form names another identity than the URL. In the small catalogue the
  author has a book, and a delete-submit whose URL names an identity without books and
  whose form names the author removes the author. In the catalogue with the second book,
  the first book has two copies, and a delete-submit whose URL names the second book and
  whose form names the first removes the first book.
\<close>

theorem delete_post_removes_record_with_dependents:
  "books_by_author catalogue_lib library austen_id = Inr [(emma_id, ''Emma'', ''A novel'')] \<and>
   author_delete_post catalogue_lib (delete_request fresh_id austen_id) library =
     ([Redirect ''/catalog/authors''], library\<lparr>authors := []\<rparr>) \<and>
   populated_instances_of_book catalogue_lib larger_library emma_id =
     Inr [(copy1_id, copy1, Some (emma_id, emma)), (copy2_id, copy2, Some (emma_id, emma))] \<and>
   book_delete_post catalogue_lib (delete_request persuasion_id emma_id) larger_library =
     ([Redirect ''/catalog/books''], larger_library\<lparr>books := [(persuasion_id, persuasion)]\<rparr>)"
proof -
  have dep_a: "books_by_author catalogue_lib library austen_id = Inr [(emma_id, ''Emma'', ''A novel'')]"
    by (simp add: books_by_author_def find_by_reference_cast catalogue_cast find_where_def
        title_summary_def await_def library_def emma_def)
  have dep_b: "populated_instances_of_book catalogue_lib larger_library emma_id =
      Inr [(copy1_id, copy1, Some (emma_id, emma)), (copy2_id, copy2, Some (emma_id, emma))]"
    by (simp add: populated_instances_of_book_def instances_of_book_def find_by_reference_cast
        catalogue_cast find_where_def populate_instance_def resolve_def await_def
        larger_library_def library_def copy1_def copy2_def copy3_def)
  have ca: "castObjectId catalogue_lib (params_id (delete_request fresh_id austen_id)) = Some fresh_id"
    "castObjectId catalogue_lib (form_id (delete_request fresh_id austen_id)) = Some austen_id"
    by (simp_all add: delete_request_def catalogue_cast)
  have cb: "castObjectId catalogue_lib (params_id (delete_request persuasion_id emma_id))
      = Some persuasion_id"
    "castObjectId catalogue_lib (form_id (delete_request persuasion_id emma_id)) = Some emma_id"
    by (simp_all add: delete_request_def catalogue_cast)
  have none_a: "find_where (\<lambda>b. author b = fresh_id) (books library) = []"
    by (simp add: find_where_def library_def emma_def)
  have rm_a: "remove_at (authors library) austen_id = []"
    by (simp add: library_def)
  have ex_b: "map_of (books larger_library) persuasion_id \<noteq> None"
    by (simp add: larger_library_def)
  have none_b: "find_where (\<lambda>d. book d = Some persuasion_id) (bookinstances larger_library) = []"
    by (simp add: find_where_def larger_library_def library_def copy1_def copy2_def copy3_def)
  have rm_b: "remove_at (books larger_library) emma_id = [(persuasion_id, persuasion)]"
    by (simp add: larger_library_def)
  have ra: "author_delete_post catalogue_lib (delete_request fresh_id austen_id) library =
      ([Redirect ''/catalog/authors''], library\<lparr>authors := []\<rparr>)"
    using delete_post_removes_form_identity [OF ca, of library] none_a rm_a by simp
  have rb: "book_delete_post catalogue_lib (delete_request persuasion_id emma_id) larger_library =
      ([Redirect ''/catalog/books''], larger_library\<lparr>books := [(persuasion_id, persuasion)]\<rparr>)"
    using delete_post_removes_form_identity [OF cb, of larger_library] ex_b none_b rm_b by simp
  from dep_a ra dep_b rb show ?thesis by blast
qed

section \<open>Creating a Genre\<close>

text \<open>
  Claim C2: for every Genre create-submit whose name passes validation (at least three
  characters after trimming), if the sanitized name (trimmed, then escaped) is the name of
  an existing genre, no record is inserted and the response is a redirect to the
  canonical path of an existing genre of that name; if no genre has that name, a new
  record with the sanitized name is saved under the identity of the new document, which
  is not in use, and the response redirects to its canonical path.
\<close>

theorem genre_create_post_existing_or_new:
  assumes "isLength 3 (trim (toString (body req ''name'')))"
    and "nm = escape (trim (toString (body req ''name'')))"
  shows "((\<exists>d\<in>set (genres st). name (snd d) = nm) \<longrightarrow>
            (\<exists>d\<in>set (genres st). name (snd d) = nm \<and>
               genre_create_post new_id req st = ([Redirect (genre_url (fst d))], st))) \<and>
         ((\<forall>d\<in>set (genres st). name (snd d) \<noteq> nm) \<and> new_id \<notin> fst ` set (genres st) \<longrightarrow>
            genre_create_post new_id req st =
              ([Redirect (genre_url new_id)],
               st\<lparr>genres := genres st @ [(new_id, \<lparr>name = nm\<rparr>)]\<rparr>))"
proof -
  have chain: "text_chain ''name'' ''Genre must be at least 3 characters'' 3 (body req ''name'')
      = (nm, [])"
    using assms by (simp add: text_chain_split isLength_def)
  have existing: "\<exists>d\<in>set (genres st). name (snd d) = nm \<and>
      genre_create_post new_id req st = ([Redirect (genre_url (fst d))], st)"
    if "\<exists>d\<in>set (genres st). name (snd d) = nm"
  proof -
    from findOne_some [of "genres st" "\<lambda>d. name d = nm", OF that]
    obtain d where "d \<in> set (genres st)" "name (snd d) = nm"
      "findOne (\<lambda>d. name d = nm) (genres st) = Some d"
      by blast
    then show ?thesis
      by (auto simp add: genre_create_post_def chain)
  qed
  have new: "genre_create_post new_id req st =
      ([Redirect (genre_url new_id)], st\<lparr>genres := genres st @ [(new_id, \<lparr>name = nm\<rparr>)]\<rparr>)"
    if "\<forall>d\<in>set (genres st). name (snd d) \<noteq> nm" "new_id \<notin> fst ` set (genres st)"
  proof -
    have "findOne (\<lambda>d. name d = nm) (genres st) = None"
      using that(1) by (intro findOne_none) simp
    then show ?thesis
      using that(2) by (simp add: genre_create_post_def chain save_def)
  qed
  from existing new show ?thesis by blast
qed

text \<open>
  In the small catalogue the name \<^verbatim>\<open>" Fiction "\<close> is the name of the stored genre once it is
  trimmed, and \<^verbatim>\<open>"Poetry"\<close> is new.
\<close>

theorem genre_create_post_witness:
  "isLength 3 (trim (toString (body (form_request [] [(''name'', '' Fiction '')] Absent) ''name''))) \<and>
   ''Fiction'' = escape (trim (toString (body (form_request [] [(''name'', '' Fiction '')] Absent) ''name''))) \<and>
   genre_create_post fresh_id (form_request [] [(''name'', '' Fiction '')] Absent) library
     = ([Redirect (genre_url fiction_id)], library) \<and>
   isLength 3 (trim (toString (body (form_request [] [(''name'', ''Poetry'')] Absent) ''name''))) \<and>
   ''Poetry'' = escape (trim (toString (body (form_request [] [(''name'', ''Poetry'')] Absent) ''name''))) \<and>
   genre_create_post fresh_id (form_request [] [(''name'', ''Poetry'')] Absent) library
     = ([Redirect (genre_url fresh_id)],
        library\<lparr>genres := genres library @ [(fresh_id, \<lparr>name = ''Poetry''\<rparr>)]\<rparr>)"
proof -
  let ?r1 = "form_request [] [(''name'', '' Fiction '')] Absent"
  let ?r2 = "form_request [] [(''name'', ''Poetry'')] Absent"
  have t1: "trim (toString (body ?r1 ''name'')) = ''Fiction''"
    by (simp add: form_request_def trim_def is_whitespace_def)
  have t2: "trim (toString (body ?r2 ''name'')) = ''Poetry''"
    by (simp add: form_request_def trim_def is_whitespace_def)
  have l1: "isLength 3 (trim (toString (body ?r1 ''name'')))"
    unfolding t1 by (simp add: isLength_def)
  have l2: "isLength 3 (trim (toString (body ?r2 ''name'')))"
    unfolding t2 by (simp add: isLength_def)
  have n1: "''Fiction'' = escape (trim (toString (body ?r1 ''name'')))"
    unfolding t1 by (simp add: escape_def escape_char_def)
  have n2: "''Poetry'' = escape (trim (toString (body ?r2 ''name'')))"
    unfolding t2 by (simp add: escape_def escape_char_def)
  have g: "genres library = [(fiction_id, \<lparr>name = ''Fiction''\<rparr>)]"
    by (simp add: library_def)
  have r1: "genre_create_post fresh_id ?r1 library = ([Redirect (genre_url fiction_id)], library)"
    using genre_create_post_existing_or_new [OF l1 n1, of library fresh_id] by (simp add: g)
  have r2: "genre_create_post fresh_id ?r2 library =
      ([Redirect (genre_url fresh_id)],
       library\<lparr>genres := genres library @ [(fresh_id, \<lparr>name = ''Poetry''\<rparr>)]\<rparr>)"
    using genre_create_post_existing_or_new [OF l2 n2, of library fresh_id] by (simp add: g)
  from l1 n1 r1 l2 n2 r2 show ?thesis by blast
qed

section \<open>Creating a Book without a title\<close>

text \<open>
  Claim C3: for every Book create-submit whose \<^verbatim>\<open>title\<close> field is empty after trimming
  (or is not submitted), the list of validation failures starts with the failure of
  \<^verbatim>\<open>title\<close> and its message, the create form is rendered again with the authors, the
  genres, the book built from the sanitized input and that list, and the store is
  unchanged.
\<close>

theorem book_create_post_empty_title:
  assumes "trim (toString (body req ''title'')) = []"
  shows "\<exists>rest b.
           book_create_post new_id req st =
             ([Render ''book_form''
                 [(''title'', VString ''Create Book''),
                  (''authors'', VAuthorList (authors st)),
                  (''genres'', VGenreChecks (mark_checked (genre b) (genres st))),
                  (''book'', VBook (Some (new_id, b))),
                  (''errors'', VErrors ((''title'', ''Title must not be empty'', []) # rest))]],
              st) \<and>
           title b = [] \<and>
           author b = escape (trim (toString (body req ''author''))) \<and>
           summary b = escape (trim (toString (body req ''summary''))) \<and>
           isbn b = escape (trim (toString (body req ''isbn''))) \<and>
           genre b = cast_array (escape_each (create_genre_normalizer (body_genre req)))"
  using assms
  by (simp add: book_create_post_def text_chain_split Let_def escape_def)

text \<open>A form whose title is two spaces, submitted to the small catalogue.\<close>

theorem book_create_post_empty_title_witness:
  "trim (toString (body (form_request [] [(''title'', ''  ''), (''author'', austen_id),
       (''summary'', ''A novel''), (''isbn'', ''1'')] (Single fiction_id)) ''title'')) = [] \<and>
   (\<exists>rest b.
      book_create_post fresh_id (form_request [] [(''title'', ''  ''), (''author'', austen_id),
          (''summary'', ''A novel''), (''isbn'', ''1'')] (Single fiction_id)) library =
        ([Render ''book_form''
            [(''title'', VString ''Create Book''),
             (''authors'', VAuthorList (authors library)),
             (''genres'', VGenreChecks (mark_checked (genre b) (genres library))),
             (''book'', VBook (Some (fresh_id, b))),
             (''errors'', VErrors ((''title'', ''Title must not be empty'', []) # rest))]],
         library) \<and>
      title b = [])"
proof -
  let ?r = "form_request [] [(''title'', ''  ''), (''author'', austen_id),
       (''summary'', ''A novel''), (''isbn'', ''1'')] (Single fiction_id)"
  have h: "trim (toString (body ?r ''title'')) = []"
    by (simp add: form_request_def trim_def is_whitespace_def)
  from book_create_post_empty_title [OF h, of fresh_id library] h
  show ?thesis by blast
qed

section \<open>The derived name of an Author\<close>

text \<open>
  Claim C4, as the specification states it: the derived full name is the empty string if
  either \<^verbatim>\<open>first_name\<close> or \<^verbatim>\<open>family_name\<close> is absent, and otherwise the family name, a comma
  and a space, and the first name. The getter tests the two names for truthiness, so a
  name that is present and empty also gives the empty string: with the first name
  \<^verbatim>\<open>""\<close> and the family name \<^verbatim>\<open>"Austen"\<close> both names are present, and the result is not
  \<^verbatim>\<open>"Austen, "\<close>.
\<close>

theorem author_name_empty_first_name_counterexample:
  "first_name (austen\<lparr>first_name := Some []\<rparr>) = Some [] \<and>
   family_name (austen\<lparr>first_name := Some []\<rparr>) = Some ''Austen'' \<and>
   author_name (austen\<lparr>first_name := Some []\<rparr>) = [] \<and>
   author_name (austen\<lparr>first_name := Some []\<rparr>) \<noteq> ''Austen'' @ '', '' @ []"
  by (simp add: austen_def author_name_def)

text \<open>
  Claim C4, amended: the derived full name of an Author is the empty string if either
  \<^verbatim>\<open>first_name\<close> or \<^verbatim>\<open>family_name\<close> is absent or empty, and otherwise it is the family
  name followed by \<^verbatim>\<open>", "\<close> followed by the first name.
\<close>

theorem author_name_absent_or_empty:
  "(first_name a = None \<or> first_name a = Some [] \<or>
    family_name a = None \<or> family_name a = Some [] \<longrightarrow> author_name a = []) \<and>
   (\<forall>f l. first_name a = Some f \<and> f \<noteq> [] \<and> family_name a = Some l \<and> l \<noteq> [] \<longrightarrow>
      author_name a = l @ '', '' @ f)"
  by (auto simp add: author_name_def)

text \<open>The example of the specification, and an author without a family name.\<close>

theorem author_name_witness:
  "author_name austen = ''Austen, Jane'' \<and> author_name (austen\<lparr>family_name := None\<rparr>) = []"
  using author_name_absent_or_empty [of austen]
    author_name_absent_or_empty [of "austen\<lparr>family_name := None\<rparr>"]
  by (simp add: austen_def)

section \<open>The detail of a record that does not exist\<close>

text \<open>
  A detail handler called with a string that is not the text of an identity passes the
  cast error of its query to \<^verbatim>\<open>next\<close>; that error has no status, and the error handler of
  the application answers it with the status 500.
\<close>

lemma detail_cast_error:
  assumes "castObjectId L (params_id req) = None"
  shows "author_detail L req st = ([Next (cast_error (params_id req))], st)"
    and "book_detail L req st = ([Next (cast_error (params_id req))], st)"
    and "genre_detail L req st = ([Next (cast_error (params_id req))], st)"
    and "bookinstance_detail L req st =
           ([Next (cast_error (params_id req))], st)"
  using assms
  by (simp_all add: author_detail_def book_detail_def genre_detail_def bookinstance_detail_def
      find_book_populated_def find_instance_def findById_cast_error await_def asyncHandler_def)

lemma cast_error_status:
  "err_status (cast_error s) = None \<and> fst (error_handler env (cast_error s)) = 500"
  by (simp add: cast_error_def error_handler_def)

text \<open>In the small catalogue the string \<^verbatim>\<open>abc\<close> is not the text of an identity.\<close>

lemma author_detail_malformed_identity:
  "author_detail catalogue_lib (id_request ''abc'') library = ([Next (cast_error ''abc'')], library) \<and>
   fst (error_handler ''production'' (cast_error ''abc'')) = 500"
proof -
  have "castObjectId catalogue_lib (params_id (id_request ''abc'')) = None"
    by (simp add: id_request_def catalogue_cast_fails)
  from detail_cast_error(1) [OF this] cast_error_status show ?thesis
    by (simp add: id_request_def)
qed

text \<open>
  Claim C5: for every entity kind, the detail handler called with an identity that
  resolves to no record calls \<^verbatim>\<open>next\<close> with an error whose status is 404, renders nothing
  and leaves the store unchanged; the error handler of the application answers such an
  error with the status 404. The identity is what the string of the URL is cast to.
\<close>

theorem detail_not_found:
  assumes "castObjectId L (params_id req) = Some i"
  shows "(map_of (authors st) i = None \<longrightarrow>
            author_detail L req st = ([Next (http_error ''Author not found'' 404)], st)) \<and>
         (map_of (books st) i = None \<longrightarrow>
            book_detail L req st = ([Next (http_error ''Book not found.'' 404)], st)) \<and>
         (map_of (genres st) i = None \<longrightarrow>
            genre_detail L req st = ([Next (http_error ''Genre Not Found'' 404)], st)) \<and>
         (map_of (bookinstances st) i = None \<longrightarrow>
            bookinstance_detail L req st = ([Next (http_error ''Book copy not found'' 404)], st)) \<and>
         err_status (http_error m 404) = Some 404 \<and>
         fst (error_handler env (http_error m 404)) = 404"
  using assms
  by (simp add: author_detail_def book_detail_def genre_detail_def bookinstance_detail_def
      books_by_author_def books_in_genre_def instances_of_book_def find_book_populated_def
      find_instance_def findById_cast find_by_reference_cast resolve_def await_def
      asyncHandler_def http_error_def error_handler_def)

text \<open>An identity that names no record of the small catalogue, in each of the four handlers.\<close>

theorem detail_not_found_witness:
  "castObjectId catalogue_lib (params_id (id_request lost_id)) = Some lost_id \<and>
   map_of (authors library) lost_id = None \<and>
   author_detail catalogue_lib (id_request lost_id) library =
     ([Next (http_error ''Author not found'' 404)], library) \<and>
   map_of (books library) lost_id = None \<and>
   book_detail catalogue_lib (id_request lost_id) library =
     ([Next (http_error ''Book not found.'' 404)], library) \<and>
   map_of (genres library) lost_id = None \<and>
   genre_detail catalogue_lib (id_request lost_id) library =
     ([Next (http_error ''Genre Not Found'' 404)], library) \<and>
   map_of (bookinstances library) lost_id = None \<and>
   bookinstance_detail catalogue_lib (id_request lost_id) library =
     ([Next (http_error ''Book copy not found'' 404)], library)"
proof -
  have c: "castObjectId catalogue_lib (params_id (id_request lost_id)) = Some lost_id"
    by (simp add: id_request_def catalogue_cast)
  have a: "map_of (authors library) lost_id = None"
    and b: "map_of (books library) lost_id = None"
    and g: "map_of (genres library) lost_id = None"
    and d: "map_of (bookinstances library) lost_id = None"
    by (simp_all add: library_def)
  from detail_not_found [OF c, of library] a b g d c
  show ?thesis by blast
qed

section \<open>The update form of a record that does not exist\<close>

text \<open>
  The update-display handlers of Author, Genre and BookInstance pass an error with status
  404 to \<^verbatim>\<open>next\<close> and render nothing.
\<close>

lemma update_get_not_found:
  assumes "castObjectId L (params_id req) = Some i"
  shows "(map_of (authors st) i = None \<longrightarrow>
            author_update_get L req st = ([Next (http_error ''Author not found.'' 404)], st)) \<and>
         (map_of (genres st) i = None \<longrightarrow>
            genre_update_get L req st = ([Next (http_error ''Genre does not exist.'' 404)], st)) \<and>
         (map_of (bookinstances st) i = None \<longrightarrow>
            bookinstance_update_get L req st =
              ([Next (http_error ''Book Instance not found.'' 404)], st))"
  using assms
  by (simp add: author_update_get_def genre_update_get_def bookinstance_update_get_def
      find_instance_def findById_cast resolve_def await_def asyncHandler_def)

text \<open>
  The handler of Book builds the same error but passes an undeclared variable, so what
  reaches \<^verbatim>\<open>next\<close> is the \<^verbatim>\<open>ReferenceError\<close> that the evaluation throws.
\<close>

lemma book_update_get_not_found:
  "findById L (books st) (params_id req) = Inr None \<Longrightarrow>
   book_update_get L req st = ([Next (reference_error ''err is not defined'')], st)"
  by (simp add: book_update_get_def find_book_populated_def await_def asyncHandler_def)

text \<open>
  Claim C6 says that for every entity kind the update-display handler, called with an
  identity that resolves to no record, passes an error with status 404 to the error
  handler and does not render the form. For Book the code does not: in the small catalogue
  the handler passes a \<^verbatim>\<open>ReferenceError\<close>, which has no status, and the error handler of
  the application answers it with the status 500.
\<close>

theorem book_update_get_missing_book:
  "findById catalogue_lib (books library) lost_id = Inr None \<and>
   book_update_get catalogue_lib (id_request lost_id) library =
     ([Next (reference_error ''err is not defined'')], library) \<and>
   err_status (reference_error ''err is not defined'') = None \<and>
   fst (error_handler ''production'' (reference_error ''err is not defined'')) = 500"
proof -
  have f: "findById catalogue_lib (books library) lost_id = Inr None"
    by (simp add: findById_cast catalogue_cast resolve_def library_def)
  then have "findById catalogue_lib (books library) (params_id (id_request lost_id)) = Inr None"
    by (simp add: id_request_def)
  from book_update_get_not_found [OF this] f show ?thesis
    by (simp add: reference_error_def error_handler_def)
qed

section \<open>The delete confirmation of a record that does not exist\<close>

text \<open>
  None of the four delete-display handlers returns after the redirect for a missing
  record, so each goes on to call \<^verbatim>\<open>res.render\<close> on its confirmation template, with null
  for the record.
\<close>

lemma delete_get_not_found:
  assumes "castObjectId L (params_id req) = Some i"
  shows "(map_of (authors st) i = None \<longrightarrow>
            author_delete_get L req st =
              ([Redirect ''/catalog/authors'',
                Render ''author_delete''
                  [(''title'', VString ''Delete Author''), (''author'', VAuthor None),
                   (''author_books'',
                    VBookSummaries
                      (map title_summary (find_where (\<lambda>b. author b = i) (books st))))]], st)) \<and>
         (map_of (genres st) i = None \<longrightarrow>
            genre_delete_get L req st =
              ([Redirect ''/catalog/genres'',
                Render ''genre_delete''
                  [(''title'', VString ''Delete Genre''), (''genre'', VGenre None),
                   (''genre_books'',
                    VBookList (find_where (\<lambda>b. i \<in> set (genre b)) (books st)))]], st)) \<and>
         (map_of (books st) i = None \<longrightarrow>
            book_delete_get L req st =
              ([Redirect ''/catalog/books'',
                Render ''book_delete''
                  [(''title'', VString ''Delete Book''),
                   (''book_instances'',
                    VInstancesPopulated
                      (map (populate_instance st)
                         (find_where (\<lambda>d. book d = Some i) (bookinstances st)))),
                   (''book'', VBook None)]], st)) \<and>
         (map_of (bookinstances st) i = None \<longrightarrow>
            bookinstance_delete_get L req st =
              ([Redirect ''/catalog/bookinstances'',
                Render ''bookinstance_delete''
                  [(''title'', VString ''Delete Book Instance''),
                   (''bookinstance'', VInstance None)]], st))"
  using assms
  by (simp add: author_delete_get_def genre_delete_get_def book_delete_get_def
      bookinstance_delete_get_def find_instance_def books_by_author_def books_in_genre_def
      populated_instances_of_book_def instances_of_book_def findById_cast
      find_by_reference_cast resolve_def await_def asyncHandler_def)

text \<open>
  Claim C7 says that for every entity kind the delete-confirmation handler, called with
  an identity that resolves to no record, redirects to the list view instead of rendering
  the confirmation template. In the small catalogue each of the four handlers calls
  \<^verbatim>\<open>res.redirect\<close> and then also \<^verbatim>\<open>res.render\<close> on the confirmation template.
\<close>

theorem delete_get_missing_record:
  "author_delete_get catalogue_lib (id_request fresh_id) library =
     ([Redirect ''/catalog/authors'',
       Render ''author_delete''
         [(''title'', VString ''Delete Author''), (''author'', VAuthor None),
          (''author_books'', VBookSummaries [])]], library) \<and>
   genre_delete_get catalogue_lib (id_request fresh_id) library =
     ([Redirect ''/catalog/genres'',
       Render ''genre_delete''
         [(''title'', VString ''Delete Genre''), (''genre'', VGenre None),
          (''genre_books'', VBookList [])]], library) \<and>
   book_delete_get catalogue_lib (id_request fresh_id) library =
     ([Redirect ''/catalog/books'',
       Render ''book_delete''
         [(''title'', VString ''Delete Book''), (''book_instances'', VInstancesPopulated []),
          (''book'', VBook None)]], library) \<and>
   bookinstance_delete_get catalogue_lib (id_request fresh_id) library =
     ([Redirect ''/catalog/bookinstances'',
       Render ''bookinstance_delete''
         [(''title'', VString ''Delete Book Instance''), (''bookinstance'', VInstance None)]],
      library)"
proof -
  have c: "castObjectId catalogue_lib (params_id (id_request fresh_id)) = Some fresh_id"
    by (simp add: id_request_def catalogue_cast)
  have none: "map_of (authors library) fresh_id = None" "map_of (genres library) fresh_id = None"
    "map_of (books library) fresh_id = None" "map_of (bookinstances library) fresh_id = None"
    by (simp_all add: library_def)
  have deps: "find_where (\<lambda>b. author b = fresh_id) (books library) = []"
    "find_where (\<lambda>b. fresh_id \<in> set (genre b)) (books library) = []"
    "find_where (\<lambda>d. book d = Some fresh_id) (bookinstances library) = []"
    by (simp_all add: find_where_def library_def emma_def copy1_def copy2_def copy3_def)
  from delete_get_not_found [OF c, of library] none deps
  show ?thesis by simp
qed

section \<open>The genre field of a Book form before validation\<close>

text \<open>
  The middleware of the create handler turns a single value into a list of one element
  and an absent field into the empty list, and a book created from a single genre value
  is stored with a list of one genre.
\<close>

lemma create_genre_normalizer_list:
  "create_genre_normalizer (Single s) = Multi [s] \<and> create_genre_normalizer Absent = Multi [] \<and>
   create_genre_normalizer (Multi xs) = Multi xs"
  by simp

lemma book_create_post_single_genre:
  assumes "body_genre req = Single g"
    and "trim (toString (body req ''title'')) \<noteq> []"
    and "trim (toString (body req ''author'')) \<noteq> []"
    and "trim (toString (body req ''summary'')) \<noteq> []"
    and "trim (toString (body req ''isbn'')) \<noteq> []"
    and "new_id \<notin> fst ` set (books st)"
  shows "book_create_post new_id req st =
           ([Redirect (book_url new_id)],
            st\<lparr>books := books st @
              [(new_id, \<lparr>title = escape (trim (toString (body req ''title''))),
                         author = escape (trim (toString (body req ''author''))),
                         summary = escape (trim (toString (body req ''summary''))),
                         isbn = escape (trim (toString (body req ''isbn''))),
                         genre = [escape g]\<rparr>)]\<rparr>)"
proof -
  have len: "Suc 0 \<le> length xs" if "xs \<noteq> []" for xs :: string
    using that by (cases xs) simp_all
  show ?thesis
    using assms
    by (simp add: book_create_post_def text_chain_split Let_def save_def len)
qed

text \<open>
  The middleware of the update handler never changes the field: its test asks whether a
  boolean is an array.
\<close>

lemma update_genre_normalizer_unchanged: "update_genre_normalizer g = g"
  by (simp add: update_genre_normalizer_def boolean_instanceof_Array_def)

text \<open>
  Claim C8 says that for every Book create-submit and update-submit request the genre
  field is normalized before the validation rules run, a single value to a list of one
  element and an absent field to the empty list. The create handler does so; after the
  first middleware of the update handler a single value is still a single value and an
  absent field is still absent.
\<close>

theorem update_genre_normalizer_single:
  "update_genre_normalizer (Single fiction_id) = Single fiction_id \<and>
   update_genre_normalizer Absent = Absent \<and>
   create_genre_normalizer (Single fiction_id) = Multi [fiction_id] \<and>
   create_genre_normalizer Absent = Multi []"
  by (simp add: update_genre_normalizer_def boolean_instanceof_Array_def)

section \<open>An update that fails validation\<close>

text \<open>
  The update-submit handlers of Genre, Author and Book render their form again with the
  document built from the sanitized input and with the list of failures, and leave the
  store unchanged.
\<close>

lemma genre_update_post_invalid:
  "trim (toString (body req ''name'')) = [] \<Longrightarrow>
   genre_update_post L new_id req st =
     ([Render ''genre_form''
         [(''title'', VString ''Update Genre''),
          (''genre'', VGenre (Some (document_id L new_id (params_id req), \<lparr>name = []\<rparr>))),
          (''errors'', VErrors [(''name'', ''An updated genre name must be provided'', [])])]], st)"
  by (simp add: genre_update_post_def text_chain_split escape_def asyncHandler_def)

lemma author_update_post_invalid:
  "trim (toString (body req ''first_name'')) = [] \<Longrightarrow>
   \<exists>a rest. author_update_post L new_id req st =
     ([Render ''author_form''
         [(''title'', VString ''Update Author''),
          (''author'', VAuthor (Some (document_id L new_id (params_id req), a))),
          (''errors'', VErrors ((''first_name'', ''First Name must be provided.'', []) # rest))]], st)"
  by (simp add: author_update_post_def text_chain_split escape_def Let_def asyncHandler_def
      split: prod.split)

lemma book_update_post_invalid:
  "trim (toString (body req ''title'')) = [] \<Longrightarrow>
   \<exists>b rest. book_update_post L new_id req st =
     ([Render ''book_form''
         [(''title'', VString ''Update Book''),
          (''book'', VBook (Some (document_id L new_id (params_id req), b))),
          (''genres'', VGenreChecks (mark_checked (genre b) (genres st))),
          (''authors'', VAuthorList (authors st)),
          (''errors'', VErrors ((''title'', ''Title must not be empty'', []) # rest))]], st)"
  by (simp add: book_update_post_def text_chain_split escape_def Let_def asyncHandler_def)

text \<open>
  Whatever the update-submit handler of BookInstance renders, the payload has the four keys
  of the source and none for the failures.
\<close>

lemma bookinstance_update_post_no_errors_key:
  "bookinstance_update_post L new_id req st = (Render t payload # rest, st') \<Longrightarrow>
   map fst payload = [''title'', ''bookinstance'', ''book_list'', ''selected_book'']"
  by (auto simp add: bookinstance_update_post_def Let_def await_def asyncHandler_def
      split: prod.splits if_splits option.splits sum.splits)

text \<open>
  Claim C9 says that for every entity kind an update-submit that fails validation displays
  the update form again with the sanitized input, the selections and the list of
  validation failures, and writes nothing. For BookInstance the code does not pass the
  list: an update of the first copy of the small catalogue with an empty status fails
  validation, the store is unchanged, and the form is rendered with a payload that has no
  \<^verbatim>\<open>errors\<close> key.
\<close>

theorem bookinstance_update_post_empty_status:
  "snd (text_chain ''status'' ''A status must be supplied.'' 1
          (body (form_request copy1_id [(''book'', emma_id), (''imprint'', ''Penguin 2003''),
             (''status'', [])] Absent) ''status''))
     = [(''status'', ''A status must be supplied.'', [])] \<and>
   bookinstance_update_post catalogue_lib fresh_id
       (form_request copy1_id [(''book'', emma_id), (''imprint'', ''Penguin 2003''),
          (''status'', [])] Absent) library =
     ([Render ''bookinstance_form''
         [(''title'', VString ''Update Book Instance''),
          (''bookinstance'',
           VInstance (Some (copy1_id,
             \<lparr>book = Some emma_id, imprint = Some ''Penguin 2003'', status = [], due_back = None\<rparr>,
             Some (emma_id, emma)))),
          (''book_list'', VBookList [(emma_id, emma)]),
          (''selected_book'', VId emma_id)]], library)"
proof -
  let ?r = "form_request copy1_id [(''book'', emma_id), (''imprint'', ''Penguin 2003''),
             (''status'', [])] Absent"
  have b: "body ?r ''book'' = Some emma_id" "body ?r ''imprint'' = Some ''Penguin 2003''"
    "body ?r ''status'' = Some []" "body ?r ''due_back'' = None" "params_id ?r = copy1_id"
    by (simp_all add: form_request_def)
  have t1: "trim emma_id = emma_id" and t2: "trim ''Penguin 2003'' = ''Penguin 2003''"
    and t3: "trim [] = []"
    by (simp_all add: trim_def is_whitespace_def)
  have e1: "escape emma_id = emma_id" and e2: "escape ''Penguin 2003'' = ''Penguin 2003''"
    and e3: "escape [] = []"
    by (simp_all add: escape_def escape_char_def)
  have c1: "text_chain ''book'' ''A book title must be supplied'' 1 (Some emma_id) = (emma_id, [])"
    by (simp add: text_chain_split t1 e1)
  have c2: "optional_text_chain ''imprint'' default_message 1 (Some ''Penguin 2003'')
      = (Some ''Penguin 2003'', [])"
    by (simp add: optional_text_chain_def t2 e2 isLength_def)
  have c3: "trimmed_date_chain catalogue_lib ''due_back'' default_message None
      = (DateUndefined, [])"
    by (simp add: trimmed_date_chain_def)
  have c4: "text_chain ''status'' ''A status must be supplied.'' 1 (Some [])
      = ([], [(''status'', ''A status must be supplied.'', [])])"
    by (simp add: text_chain_split t3 e3)
  have g: "books library = [(emma_id, emma)]"
    by (simp add: library_def)
  have f: "findById catalogue_lib [(emma_id, emma)] emma_id = Inr (Some (emma_id, emma))"
    by (simp add: findById_cast catalogue_cast resolve_def)
  have d: "document_id catalogue_lib fresh_id copy1_id = copy1_id"
    by (simp add: document_id_def catalogue_cast)
  show ?thesis
    unfolding bookinstance_update_post_def b c1 c2 c3 c4
    by (simp add: Let_def g f d await_def asyncHandler_def)
qed

section \<open>Deleting a BookInstance\<close>

text \<open>
  A delete-submit whose form field is not the text of an identity passes the cast error of
  its query to \<^verbatim>\<open>next\<close> and leaves the store unchanged.
\<close>

lemma bookinstance_delete_post_cast_error:
  "castObjectId L (form_id req) = None \<Longrightarrow>
   bookinstance_delete_post L req st =
     ([Next (cast_error (form_id req))], st)"
  by (simp add: bookinstance_delete_post_def find_instance_def findById_cast_error await_def
      asyncHandler_def)

text \<open>
  Claim C10: for every BookInstance delete-submit request, the record under the identity
  of the form is removed, and the response redirects to the list of instances, exactly
  when that record exists and its status is \<^verbatim>\<open>Available\<close>; after the removal the identity
  resolves to no record (identities in a collection being distinct). In every other case,
  a missing record or any other status, the store is unchanged and the confirmation view
  is rendered again. The identity is what the field of the form is cast to.
\<close>

theorem bookinstance_delete_post_only_available:
  assumes "castObjectId L (form_id req) = Some i"
  shows "(\<forall>d. map_of (bookinstances st) i = Some d \<and> status d = ''Available'' \<longrightarrow>
            bookinstance_delete_post L req st =
              ([Redirect ''/catalog/bookinstances''],
               st\<lparr>bookinstances := remove_at (bookinstances st) i\<rparr>) \<and>
            (distinct (map fst (bookinstances st)) \<longrightarrow>
               map_of (bookinstances (snd (bookinstance_delete_post L req st))) i = None)) \<and>
         (\<not> (\<exists>d. map_of (bookinstances st) i = Some d \<and> status d = ''Available'') \<longrightarrow>
            bookinstance_delete_post L req st =
              ([Render ''bookinstance_delete''
                  [(''title'', VString ''Delete Book Instance''),
                   (''bookinstance'',
                    VInstance (map_option (populate_instance st) (resolve (bookinstances st) i)))]],
               st))"
  using assms
  by (auto simp add: bookinstance_delete_post_def find_instance_def findById_cast
      findByIdAndRemove_cast resolve_def populate_instance_def await_def asyncHandler_def
      remove_at_gone split: option.splits)

text \<open>
  In the small catalogue the first copy is available and is removed; the second is on
  loan and stays; an identity that names no copy changes nothing.
\<close>

theorem bookinstance_delete_post_witness:
  "castObjectId catalogue_lib (form_id (id_request copy1_id)) = Some copy1_id \<and>
   map_of (bookinstances library) copy1_id = Some copy1 \<and> status copy1 = ''Available'' \<and>
   bookinstance_delete_post catalogue_lib (id_request copy1_id) library =
     ([Redirect ''/catalog/bookinstances''],
      library\<lparr>bookinstances := [(copy2_id, copy2), (copy3_id, copy3)]\<rparr>) \<and>
   castObjectId catalogue_lib (form_id (id_request copy2_id)) = Some copy2_id \<and>
   map_of (bookinstances library) copy2_id = Some copy2 \<and> status copy2 = ''Loaned'' \<and>
   bookinstance_delete_post catalogue_lib (id_request copy2_id) library =
     ([Render ''bookinstance_delete''
         [(''title'', VString ''Delete Book Instance''),
          (''bookinstance'', VInstance (Some (copy2_id, copy2, Some (emma_id, emma))))]], library) \<and>
   castObjectId catalogue_lib (form_id (id_request lost_id)) = Some lost_id \<and>
   map_of (bookinstances library) lost_id = None \<and>
   bookinstance_delete_post catalogue_lib (id_request lost_id) library =
     ([Render ''bookinstance_delete''
         [(''title'', VString ''Delete Book Instance''),
          (''bookinstance'', VInstance None)]], library)"
proof -
  have insts: "bookinstances library = [(copy1_id, copy1), (copy2_id, copy2), (copy3_id, copy3)]"
    by (simp add: library_def)
  have c1: "castObjectId catalogue_lib (form_id (id_request copy1_id)) = Some copy1_id"
    and c2: "castObjectId catalogue_lib (form_id (id_request copy2_id)) = Some copy2_id"
    and c3: "castObjectId catalogue_lib (form_id (id_request lost_id)) = Some lost_id"
    by (simp_all add: id_request_def catalogue_cast)
  have f1: "map_of (bookinstances library) copy1_id = Some copy1"
    and f2: "map_of (bookinstances library) copy2_id = Some copy2"
    and f3: "map_of (bookinstances library) lost_id = None"
    by (simp_all add: insts)
  have s1: "status copy1 = ''Available''" and s2: "status copy2 = ''Loaned''"
    by (simp_all add: copy1_def copy2_def)
  have rm: "remove_at (bookinstances library) copy1_id = [(copy2_id, copy2), (copy3_id, copy3)]"
    by (simp add: insts)
  have p2: "map_option (populate_instance library) (resolve (bookinstances library) copy2_id)
      = Some (copy2_id, copy2, Some (emma_id, emma))"
    by (simp add: populate_instance_def resolve_def library_def copy2_def)
  have p3: "map_option (populate_instance library) (resolve (bookinstances library) lost_id) = None"
    by (simp add: resolve_def f3)
  have r1: "bookinstance_delete_post catalogue_lib (id_request copy1_id) library =
     ([Redirect ''/catalog/bookinstances''],
      library\<lparr>bookinstances := [(copy2_id, copy2), (copy3_id, copy3)]\<rparr>)"
    using bookinstance_delete_post_only_available [OF c1, of library] f1 s1 rm
    by simp
  have r2: "bookinstance_delete_post catalogue_lib (id_request copy2_id) library =
     ([Render ''bookinstance_delete''
         [(''title'', VString ''Delete Book Instance''),
          (''bookinstance'', VInstance (Some (copy2_id, copy2, Some (emma_id, emma))))]], library)"
    using bookinstance_delete_post_only_available [OF c2, of library] f2 s2 p2
    by simp
  have r3: "bookinstance_delete_post catalogue_lib (id_request lost_id) library =
     ([Render ''bookinstance_delete''
         [(''title'', VString ''Delete Book Instance''),
          (''bookinstance'', VInstance None)]], library)"
    using bookinstance_delete_post_only_available [OF c3, of library] f3 p3
    by simp
  from c1 f1 s1 r1 c2 f2 s2 r2 c3 f3 r3 show ?thesis by blast
qed


end
